theory Spec2Isabelle
  imports Main "HOL-Library.AList"
begin

section \<open>Host environment\<close>

text \<open>
  The script runs in a browser. Services of the host that the code uses and that are not
  part of the repository are parameters of the model, collected in a record: the date
  parser behind \<^verbatim>\<open>new Date(iso)\<close>, the formatter behind
  \<^verbatim>\<open>Intl.DateTimeFormat(...).format\<close>, \<^verbatim>\<open>JSON.parse\<close>, the case mapping of
  \<^verbatim>\<open>toUpperCase\<close> outside ASCII, the text a member of \<^verbatim>\<open>Object.prototype\<close>
  converts to, and whether \<^verbatim>\<open>localStorage.setItem\<close> takes a text or throws (no room
  left, or no access).

  Strings are the UTF-8 bytes of well-formed text.

  A time value is the number of milliseconds since the epoch. ECMAScript time values are
  integers of magnitude at most 8.64e15, and every difference the code forms has the
  current time as one operand, so all arithmetic on them is exact in double precision;
  the model uses \<open>int\<close>. The time value NaN of an invalid Date is \<open>None\<close>.
\<close>

datatype jsval =
    JNull
  | JBool bool
  | JNum int
  | JStr string
  | JArr "jsval list"
  | JObj "(string \<times> jsval) list"

record host =
  Date_parse :: "string \<Rightarrow> int option"
    \<comment> \<open>\<^verbatim>\<open>new Date(iso).getTime()\<close>, \<open>None\<close> for NaN\<close>
  Intl_format :: "int \<Rightarrow> string"
    \<comment> \<open>the \<^verbatim>\<open>Intl.DateTimeFormat\<close> call of \<^verbatim>\<open>formatLocal\<close>\<close>
  JSON_parse :: "string \<Rightarrow> jsval option"
    \<comment> \<open>\<^verbatim>\<open>JSON.parse(raw)\<close>, \<open>None\<close> when it throws SyntaxError\<close>
  toUpperCase :: "string \<Rightarrow> string"
    \<comment> \<open>\<^verbatim>\<open>c.toUpperCase()\<close> for one character \<open>c\<close> of two or three bytes\<close>
  inherited_text :: "string \<Rightarrow> string"
    \<comment> \<open>\<^verbatim>\<open>String(Object.prototype[k])\<close> for a member \<open>k\<close> of \<^verbatim>\<open>Object.prototype\<close>\<close>
  setItem_accepts :: "string \<Rightarrow> bool"
    \<comment> \<open>\<^verbatim>\<open>localStorage.setItem(STORAGE_KEY, text)\<close> returns rather than throws\<close>

section \<open>Tile descriptors\<close>

record tile =
  tile_id :: string
  title :: string
  rarity :: string
  revealAt :: string
  imageUrl :: "string option"
  icon :: "string option"

section \<open>Helpers\<close>

definition parseTime :: "host \<Rightarrow> string \<Rightarrow> int option" where
  "parseTime h isoStr = (let d = Date_parse h isoStr in if d = None then None else d)"

definition formatLocal :: "host \<Rightarrow> int \<Rightarrow> string" where
  "formatLocal h dt = Intl_format h dt"

record parts =
  days :: int
  hours :: int
  mins :: int
  secs :: int

definition msToParts :: "int \<Rightarrow> parts" where
  "msToParts ms =
     (let s = max 0 (ms div 1000) in
      \<lparr> days = s div 86400,
        hours = (s mod 86400) div 3600,
        mins = (s mod 3600) div 60,
        secs = s mod 60 \<rparr>)"

text \<open>Decimal rendering of a number inside a template literal.\<close>

definition digit_char :: "nat \<Rightarrow> char" where
  "digit_char d = char_of (48 + d)"

fun show_nat :: "nat \<Rightarrow> string" where
  "show_nat n = (if n < 10 then [digit_char n] else show_nat (n div 10) @ [digit_char (n mod 10)])"

declare show_nat.simps [simp del]

definition Number_toString :: "int \<Rightarrow> string" where
  "Number_toString i = (if i < 0 then CHR ''-'' # show_nat (nat (- i)) else show_nat (nat i))"

definition countdownString :: "int \<Rightarrow> string" where
  "countdownString ms =
     (let p = msToParts ms in
      if days p > 0 then
        Number_toString (days p) @ ''d '' @ Number_toString (hours p) @ ''h '' @
        Number_toString (mins p) @ ''m''
      else if hours p > 0 then
        Number_toString (hours p) @ ''h '' @ Number_toString (mins p) @ ''m '' @
        Number_toString (secs p) @ ''s''
      else
        Number_toString (mins p) @ ''m '' @ Number_toString (secs p) @ ''s'')"

definition isRevealed :: "host \<Rightarrow> tile \<Rightarrow> int \<Rightarrow> bool" where
  "isRevealed h t now =
     (case parseTime h (revealAt t) of
        None \<Rightarrow> False
      | Some r \<Rightarrow> now \<ge> r)"

text \<open>\<^verbatim>\<open>Array.prototype.findIndex\<close>: the index of the first element satisfying the
  predicate, scanning from index 0, and \<open>-1\<close> when there is none.\<close>

fun findIndex_from :: "('a \<Rightarrow> bool) \<Rightarrow> 'a list \<Rightarrow> nat \<Rightarrow> int" where
  "findIndex_from p [] k = - 1"
| "findIndex_from p (x # xs) k = (if p x then int k else findIndex_from p xs (Suc k))"

definition findIndex :: "('a \<Rightarrow> bool) \<Rightarrow> 'a list \<Rightarrow> int" where
  "findIndex p xs = findIndex_from p xs 0"

definition nextUnrevealedIndex :: "host \<Rightarrow> tile list \<Rightarrow> int \<Rightarrow> int" where
  "nextUnrevealedIndex h TILES now = findIndex (\<lambda>t. \<not> isRevealed h t now) TILES"


section \<open>Presentation helpers\<close>

text \<open>
  \<^verbatim>\<open>r.charAt(0).toUpperCase() + r.slice(1)\<close>. \<^verbatim>\<open>charAt(0)\<close> is the first UTF-16 code
  unit. For an ASCII character the mapping is written out. For a character of two or
  three bytes it is the host's, and may give more than one character. A character of four
  bytes is a surrogate pair, whose first half alone has no upper case, so the string comes
  back as it is.
\<close>

definition toUpperCase_char :: "char \<Rightarrow> char" where
  "toUpperCase_char c =
     (let n = of_char c :: nat in if 97 \<le> n \<and> n \<le> 122 then char_of (n - 32) else c)"

definition rarityLabel :: "host \<Rightarrow> string \<Rightarrow> string" where
  "rarityLabel h r =
     (case r of
        [] \<Rightarrow> []
      | c # cs \<Rightarrow>
          (let n = of_char c :: nat in
           if n < 128 then toUpperCase_char c # cs
           else if n \<ge> 240 then r
           else if n \<ge> 224 then toUpperCase h (take 3 r) @ drop 3 r
           else toUpperCase h (take 2 r) @ drop 2 r))"

definition rarityClass :: "string \<Rightarrow> string" where
  "rarityClass r =
     (if r = ''common'' then ''r-common''
      else if r = ''rare'' then ''r-rare''
      else if r = ''epic'' then ''r-epic''
      else if r = ''legendary'' then ''r-legendary''
      else ''r-common'')"

definition rarityBadgeClass :: "string \<Rightarrow> string" where
  "rarityBadgeClass r = ''badge rarity-'' @ r"

text \<open>The non-ASCII glyphs of the source, as their UTF-8 bytes: the wrapped gift
  (U+1F381), the hexagon (U+2B21) and the bullet (U+2022).\<close>

definition GIFT :: string where
  "GIFT = [CHR 0xF0, CHR 0x9F, CHR 0x8E, CHR 0x81]"

definition HEXAGON :: string where
  "HEXAGON = [CHR 0xE2, CHR 0xAC, CHR 0xA1]"

definition BULLET :: string where
  "BULLET = [CHR 0xE2, CHR 0x80, CHR 0xA2]"

text \<open>\<^verbatim>\<open>x || fallback\<close> on an optional string: \<^verbatim>\<open>undefined\<close> and the empty string are
  falsy.\<close>

definition or_else :: "string option \<Rightarrow> string \<Rightarrow> string" where
  "or_else x d = (case x of None \<Rightarrow> d | Some s \<Rightarrow> if s = [] then d else s)"

definition truthy :: "string option \<Rightarrow> bool" where
  "truthy x = (case x of None \<Rightarrow> False | Some s \<Rightarrow> s \<noteq> [])"

section \<open>Page state\<close>

text \<open>
  The repository holds two versions of the script. \<^verbatim>\<open>src/app.js\<close> shows an uploaded
  image per tile; the second file shows a fixed image URL per tile and hides the upload
  button. Their helpers and their \<^verbatim>\<open>updateCountdowns\<close> are the same text; the loop body
  of \<^verbatim>\<open>renderTrack\<close> and parts of \<^verbatim>\<open>openTileModal\<close> differ.
\<close>

datatype variant = Upload_script | Url_script

datatype art = Img string string | Placeholder string

record head_el =
  rarity_className :: string
  rarity_text :: string
  status_text :: string
  title_text :: string
  sub_text :: string
  time_html :: string
  cta_text :: string

record countdown_el =
  cd_className :: string
  cd_for :: string
  cd_html :: string

record tile_el =
  className :: string
  data_id :: string
  head :: "head_el option"
  art_className :: string
  art :: art
  locked_title :: "string option"
  countdown :: "countdown_el option"

text \<open>
  \<open>imagesById\<close> is a plain object with string values: its own properties are kept as
  an association list in the order they were created, and it inherits the members of
  \<^verbatim>\<open>Object.prototype\<close>.
\<close>

type_synonym images = "(string \<times> string) list"

definition Object_prototype_keys :: "string list" where
  "Object_prototype_keys =
     [''constructor'', ''__defineGetter__'', ''__defineSetter__'', ''hasOwnProperty'',
      ''__lookupGetter__'', ''__lookupSetter__'', ''isPrototypeOf'',
      ''propertyIsEnumerable'', ''toString'', ''valueOf'', ''__proto__'',
      ''toLocaleString'']"

text \<open>The value of \<^verbatim>\<open>obj[k]\<close>: an own string, an inherited member (a function, or the
  prototype itself for \<^verbatim>\<open>__proto__\<close>), or \<^verbatim>\<open>undefined\<close>.\<close>

datatype property = Undefined | Own string | Inherited string

definition obj_get :: "images \<Rightarrow> string \<Rightarrow> property" where
  "obj_get obj k =
     (case map_of obj k of
        Some v \<Rightarrow> Own v
      | None \<Rightarrow> if k \<in> set Object_prototype_keys then Inherited k else Undefined)"

definition truthy_prop :: "property \<Rightarrow> bool" where
  "truthy_prop x = (case x of Undefined \<Rightarrow> False | Own s \<Rightarrow> s \<noteq> [] | Inherited k \<Rightarrow> True)"

definition prop_text :: "host \<Rightarrow> property \<Rightarrow> string" where
  "prop_text h x =
     (case x of Undefined \<Rightarrow> ''undefined'' | Own s \<Rightarrow> s | Inherited k \<Rightarrow> inherited_text h k)"

text \<open>
  \<^verbatim>\<open>obj[k] = v\<close> for a string \<open>v\<close>: an own property is overwritten in place, a new one
  is added at the end. The key \<^verbatim>\<open>__proto__\<close>, when it is not an own property, reaches the
  setter of \<^verbatim>\<open>Object.prototype\<close>, which ignores a value that is not an object.
\<close>

definition obj_set :: "images \<Rightarrow> string \<Rightarrow> string \<Rightarrow> images" where
  "obj_set obj k v =
     (if k = ''__proto__'' \<and> map_of obj k = None then obj else AList.update k v obj)"

record page =
  trackRow :: "tile_el list"
  trackHint :: string
  imagesById :: images
  localStorage :: "string option"
  activeTileId :: "string option"
  modalKicker :: string
  modalTitle :: string
  modalRarity :: string
  modalReveal :: string
  modalStatus :: string
  modalPreview :: "art option"
  modalUploadBtn_disabled :: bool
  modalUploadBtn_text :: string
  modalUploadBtn_display :: string
  modalBackdrop_open :: bool
  modalBackdrop_ariaHidden :: string
  filePicker_value :: string
  filePicker_clicks :: nat

section \<open>Persistence\<close>

datatype 'a outcome = Threw | Returned 'a

text \<open>
  A handler or a render pass either returns the page (\<open>Inr\<close>) or stops with an
  exception or without end (\<open>Inl\<close>, with the reason). What a stopped run leaves of the
  page is not part of the value.
\<close>

datatype stop = Nesting_exceeded | Selector_unsafe | Storage_refused

definition STORAGE_KEY :: string where
  "STORAGE_KEY = ''reveal_track_images_v1''"

text \<open>\<^verbatim>\<open>loadImages\<close> on the outcome of \<^verbatim>\<open>localStorage.getItem(STORAGE_KEY)\<close>.\<close>

definition loadImages :: "host \<Rightarrow> string option outcome \<Rightarrow> jsval" where
  "loadImages h got =
     (case got of
        Threw \<Rightarrow> JObj []
      | Returned raw \<Rightarrow>
          (case raw of
             None \<Rightarrow> JObj []
           | Some text \<Rightarrow>
               if text = [] then JObj []
               else (case JSON_parse h text of None \<Rightarrow> JObj [] | Some v \<Rightarrow> v)))"

text \<open>\<^verbatim>\<open>JSON.stringify\<close> of an object whose values are strings.\<close>

definition hex_digit :: "nat \<Rightarrow> char" where
  "hex_digit d = (if d < 10 then char_of (48 + d) else char_of (87 + d))"

definition quote_char :: "char \<Rightarrow> string" where
  "quote_char c =
     (let n = of_char c :: nat in
      if n = 8 then [CHR 0x5C, CHR ''b'']
      else if n = 9 then [CHR 0x5C, CHR ''t'']
      else if n = 10 then [CHR 0x5C, CHR ''n'']
      else if n = 12 then [CHR 0x5C, CHR ''f'']
      else if n = 13 then [CHR 0x5C, CHR ''r'']
      else if n = 34 then [CHR 0x5C, CHR 0x22]
      else if n = 92 then [CHR 0x5C, CHR 0x5C]
      else if n < 32 then
        [CHR 0x5C, CHR ''u'', CHR ''0'', CHR ''0'', hex_digit (n div 16), hex_digit (n mod 16)]
      else [c])"

definition quote_string :: "string \<Rightarrow> string" where
  "quote_string s = CHR 0x22 # concat (map quote_char s) @ [CHR 0x22]"

text \<open>
  The order in which own keys are listed: the keys that are array indices (a decimal
  numeral without leading zero, below \<open>2^32 - 1\<close>) in ascending numeric order, then the
  other keys in the order they were created.
\<close>

definition is_digit :: "char \<Rightarrow> bool" where
  "is_digit c = (48 \<le> (of_char c :: nat) \<and> (of_char c :: nat) \<le> 57)"

definition index_value :: "string \<Rightarrow> nat" where
  "index_value k = foldl (\<lambda>n c. 10 * n + (of_char c - 48)) 0 k"

definition is_array_index :: "string \<Rightarrow> bool" where
  "is_array_index k =
     (k \<noteq> [] \<and> list_all is_digit k \<and> (length k = 1 \<or> hd k \<noteq> CHR ''0'') \<and>
      index_value k < 4294967295)"

definition ownPropertyOrder :: "images \<Rightarrow> images" where
  "ownPropertyOrder obj =
     sort_key (\<lambda>kv. index_value (fst kv)) (filter (\<lambda>kv. is_array_index (fst kv)) obj) @
     filter (\<lambda>kv. \<not> is_array_index (fst kv)) obj"

fun members :: "images \<Rightarrow> string" where
  "members [] = []"
| "members [(k, v)] = quote_string k @ '':'' @ quote_string v"
| "members ((k, v) # kvs) = quote_string k @ '':'' @ quote_string v @ '','' @ members kvs"

definition JSON_stringify :: "images \<Rightarrow> string" where
  "JSON_stringify obj = ''{'' @ members (ownPropertyOrder obj) @ ''}''"

definition saveImages :: "host \<Rightarrow> page \<Rightarrow> stop + page" where
  "saveImages h st =
     (if setItem_accepts h (JSON_stringify (imagesById st))
      then Inr (st\<lparr>localStorage := Some (JSON_stringify (imagesById st))\<rparr>)
      else Inl Storage_refused)"


section \<open>Rendering\<close>

text \<open>
  One synchronous pass is evaluated at one reading \<open>now\<close> of the device clock, which
  stands for every \<^verbatim>\<open>new Date()\<close> executed during the pass.
\<close>

definition renderTile :: "variant \<Rightarrow> host \<Rightarrow> images \<Rightarrow> int \<Rightarrow> tile \<Rightarrow> tile_el" where
  "renderTile v h imgs now t =
     (let rAt = parseTime h (revealAt t);
          revealed = (case rAt of None \<Rightarrow> False | Some r \<Rightarrow> now \<ge> r)
      in case v of
        Upload_script \<Rightarrow>
          (let hasImage = truthy_prop (obj_get imgs (tile_id t)) in
           \<lparr> className =
               ''tile '' @ rarityClass (rarity t) @ '' '' @
               (if revealed then ''revealed'' else ''locked''),
             data_id = tile_id t,
             head = Some
               \<lparr> rarity_className = rarityBadgeClass (rarity t),
                 rarity_text = rarityLabel h (rarity t),
                 status_text =
                   (if revealed then (if hasImage then ''IMAGE SET'' else ''REVEALED'')
                    else ''LOCKED''),
                 title_text = title t,
                 sub_text =
                   (if revealed then ''Click to upload / replace tile image.''
                    else ''Reveals automatically at the scheduled time.''),
                 time_html =
                   ''Reveal <span>'' @
                   (case rAt of None \<Rightarrow> ''Invalid time'' | Some r \<Rightarrow> formatLocal h r) @
                   ''</span>'',
                 cta_text = (if revealed then ''OPEN'' else ''COUNTDOWN'') \<rparr>,
             art_className = ''art'',
             art =
               (if hasImage then Img (prop_text h (obj_get imgs (tile_id t))) (title t @ '' image'')
                else Placeholder (or_else (icon t) GIFT)),
             locked_title = (if revealed then None else Some ''LOCKED''),
             countdown =
               (if revealed then None
                else Some
                  \<lparr> cd_className = ''countdown'',
                    cd_for = tile_id t,
                    cd_html = ''<small>Reveals in</small>'' \<rparr>) \<rparr>)
      | Url_script \<Rightarrow>
          (let coverUrl = (if revealed then or_else (imageUrl t) [] else []);
               hasImage = (coverUrl \<noteq> [])
           in
           \<lparr> className =
               ''tile '' @ rarityClass (rarity t) @ '' '' @
               (if revealed then ''revealed'' else ''locked''),
             data_id = tile_id t,
             head = None,
             art_className = ''art art-only'',
             art =
               (if hasImage then Img coverUrl (title t @ '' cover'')
                else Placeholder (or_else (icon t) HEXAGON)),
             locked_title = None,
             countdown =
               (if revealed then None
                else Some
                  \<lparr> cd_className = ''countdown big'',
                    cd_for = tile_id t,
                    cd_html =
                      ''<small>Reveals in</small>'' @
                      countdownString ((case rAt of None \<Rightarrow> now | Some r \<Rightarrow> r) - now) \<rparr>) \<rparr>))"

definition hintText :: "variant \<Rightarrow> host \<Rightarrow> int \<Rightarrow> string" where
  "hintText v h now =
     (case v of
        Upload_script \<Rightarrow>
          ''Now: '' @ formatLocal h now @ '' '' @ BULLET @ '' Reveals use your device time''
      | Url_script \<Rightarrow> ''Now: '' @ formatLocal h now @ '' CET'')"

text \<open>
  \<^verbatim>\<open>document.querySelector(`[data-countdown-for="${tile.id}"]`)\<close>. The id is put into
  the selector text as it is. Inside the quoted string of a selector a double quote ends
  the string, a backslash starts an escape, a line feed, carriage return or form feed
  breaks the string, and NUL is replaced; with any of these in the id the text is not the
  selector of that id: the call throws SyntaxError or selects by something else. Every
  other character stands for itself. \<open>selector_safe\<close> says that an id has none of the
  six characters.

  For a safe id the call gives the first element, in document order, whose attribute is
  the id: the position in the track of the first countdown element carrying it, the track
  holding the only elements with that attribute.
\<close>

definition selector_safe :: "string \<Rightarrow> bool" where
  "selector_safe i =
     list_all (\<lambda>c. (of_char c :: nat) \<noteq> 0 \<and> (of_char c :: nat) \<noteq> 10 \<and>
                  (of_char c :: nat) \<noteq> 12 \<and> (of_char c :: nat) \<noteq> 13 \<and>
                  (of_char c :: nat) \<noteq> 34 \<and> (of_char c :: nat) \<noteq> 92) i"

fun querySelector_from :: "string \<Rightarrow> tile_el list \<Rightarrow> nat \<Rightarrow> nat option" where
  "querySelector_from i [] k = None"
| "querySelector_from i (e # es) k =
     (case countdown e of
        None \<Rightarrow> querySelector_from i es (Suc k)
      | Some cd \<Rightarrow> if cd_for cd = i then Some k else querySelector_from i es (Suc k))"

definition querySelector :: "string \<Rightarrow> tile_el list \<Rightarrow> nat option" where
  "querySelector i es = querySelector_from i es 0"

text \<open>Assigning \<^verbatim>\<open>textContent\<close> or \<^verbatim>\<open>innerHTML\<close> of the countdown element found at a
  position.\<close>

definition set_html :: "nat \<Rightarrow> string \<Rightarrow> tile_el list \<Rightarrow> tile_el list" where
  "set_html k html es =
     (if k < length es then
        es[k := (es ! k)\<lparr>countdown := map_option (\<lambda>cd. cd\<lparr>cd_html := html\<rparr>) (countdown (es ! k))\<rparr>]
      else es)"

text \<open>
  \<^verbatim>\<open>renderTrack\<close> ends by calling \<^verbatim>\<open>updateCountdowns\<close>, whose loop calls
  \<^verbatim>\<open>renderTrack\<close> again when a countdown has run out. A pass either returns the page
  or stops: with \<open>Nesting_exceeded\<close> when it needs a deeper nesting than the first
  argument allows, with \<open>Selector_unsafe\<close> when the loop reaches a tile whose id is
  not \<open>selector_safe\<close>, where what the selector call does is not modelled.
  The loop's assignment to \<^verbatim>\<open>el.firstChild.textContent\<close> is overwritten by the
  assignment to \<^verbatim>\<open>el.innerHTML\<close> that follows it, so only the latter appears.
\<close>

fun renderTrack :: "variant \<Rightarrow> nat \<Rightarrow> host \<Rightarrow> tile list \<Rightarrow> int \<Rightarrow> page \<Rightarrow> stop + page"
and updateCountdowns_loop ::
  "variant \<Rightarrow> nat \<Rightarrow> host \<Rightarrow> tile list \<Rightarrow> int \<Rightarrow> tile list \<Rightarrow> page \<Rightarrow> stop + page"
where
  "renderTrack v 0 h TILES now st = Inl Nesting_exceeded"
| "renderTrack v (Suc n) h TILES now st =
     updateCountdowns_loop v n h TILES now TILES
       (st\<lparr>trackRow := map (renderTile v h (imagesById st) now) TILES,
           trackHint := hintText v h now\<rparr>)"
| "updateCountdowns_loop v n h TILES now [] st = Inr st"
| "updateCountdowns_loop v n h TILES now (t # rest) st =
     (if \<not> selector_safe (tile_id t) then Inl Selector_unsafe
      else case querySelector (tile_id t) (trackRow st) of
        None \<Rightarrow> updateCountdowns_loop v n h TILES now rest st
      | Some el \<Rightarrow>
          (case parseTime h (revealAt t) of
             None \<Rightarrow>
               updateCountdowns_loop v n h TILES now rest
                 (st\<lparr>trackRow := set_html el ''Invalid time'' (trackRow st)\<rparr>)
           | Some r \<Rightarrow>
               (let ms = r - now;
                    st' = st\<lparr>trackRow :=
                            set_html el (''<small>Reveals in</small>'' @ countdownString ms)
                              (trackRow st)\<rparr>
                in if ms \<le> 0 then
                     (case renderTrack v n h TILES now st' of
                        Inl e \<Rightarrow> Inl e
                      | Inr st'' \<Rightarrow> updateCountdowns_loop v n h TILES now rest st'')
                   else updateCountdowns_loop v n h TILES now rest st')))"

definition updateCountdowns :: "variant \<Rightarrow> nat \<Rightarrow> host \<Rightarrow> tile list \<Rightarrow> int \<Rightarrow> page \<Rightarrow> stop + page" where
  "updateCountdowns v n h TILES now st = updateCountdowns_loop v n h TILES now TILES st"


section \<open>Modal\<close>

definition openTileModal :: "variant \<Rightarrow> host \<Rightarrow> int \<Rightarrow> tile \<Rightarrow> page \<Rightarrow> page" where
  "openTileModal v h now t st =
     (let rAt = parseTime h (revealAt t);
          revealed = (case rAt of None \<Rightarrow> False | Some r \<Rightarrow> now \<ge> r);
          st1 = st\<lparr>activeTileId := Some (tile_id t),
                   modalKicker := ''TILE '' @ BULLET @ '' '' @ tile_id t,
                   modalTitle := title t,
                   modalRarity := rarityLabel h (rarity t),
                   modalReveal :=
                     (case rAt of None \<Rightarrow> ''Invalid time'' | Some r \<Rightarrow> formatLocal h r),
                   modalStatus := (if revealed then ''Revealed'' else ''Locked'')\<rparr>;
          st2 =
            (case v of
               Upload_script \<Rightarrow>
                 st1\<lparr>modalPreview :=
                       Some (if truthy_prop (obj_get (imagesById st) (tile_id t))
                             then Img (prop_text h (obj_get (imagesById st) (tile_id t)))
                                      (title t @ '' image'')
                             else Placeholder (or_else (icon t) GIFT)),
                     modalUploadBtn_disabled := (\<not> revealed),
                     modalUploadBtn_text :=
                       (if revealed then ''Upload / Replace Image''
                        else ''Locked (wait for reveal)'')\<rparr>
             | Url_script \<Rightarrow>
                 st1\<lparr>modalPreview :=
                       Some (if revealed \<and> truthy (imageUrl t)
                             then Img (or_else (imageUrl t) []) (title t @ '' cover'')
                             else Placeholder (or_else (icon t) HEXAGON)),
                     modalUploadBtn_display := ''none''\<rparr>)
      in st2\<lparr>modalBackdrop_open := True, modalBackdrop_ariaHidden := ''false''\<rparr>)"

definition closeModal :: "page \<Rightarrow> page" where
  "closeModal st =
     st\<lparr>modalBackdrop_open := False, modalBackdrop_ariaHidden := ''true'',
        activeTileId := None\<rparr>"

section \<open>Upload\<close>

text \<open>The click handler of \<^verbatim>\<open>modalUploadBtn\<close>. \<^verbatim>\<open>filePicker.click()\<close> opens the host's file
  dialog; the page records how often that happened.\<close>

definition modalUploadBtn_click :: "host \<Rightarrow> tile list \<Rightarrow> int \<Rightarrow> page \<Rightarrow> page" where
  "modalUploadBtn_click h TILES now st =
     (if \<not> truthy (activeTileId st) then st
      else case find (\<lambda>t. Some (tile_id t) = activeTileId st) TILES of
        None \<Rightarrow> st
      | Some t \<Rightarrow>
          if \<not> isRevealed h t now then st
          else st\<lparr>filePicker_value := [], filePicker_clicks := Suc (filePicker_clicks st)\<rparr>)"

text \<open>
  The change handler of \<^verbatim>\<open>filePicker\<close> is an async function. Up to its \<^verbatim>\<open>await\<close> it
  only decides whether to go on; the part after the \<^verbatim>\<open>await\<close> runs later, as a step of
  its own, on the page as it is then and with the text the file read produced. A failed
  read rejects the promise and the second part never runs.
\<close>

record picked_file =
  file_type :: string

definition startsWith :: "string \<Rightarrow> string \<Rightarrow> bool" where
  "startsWith s p = (take (length p) s = p)"

definition filePicker_change_awaits :: "picked_file option \<Rightarrow> page \<Rightarrow> bool" where
  "filePicker_change_awaits f st =
     (case f of
        None \<Rightarrow> False
      | Some fl \<Rightarrow>
          if \<not> truthy (activeTileId st) then False
          else if \<not> startsWith (file_type fl) ''image/'' then False
          else True)"

text \<open>A property key made from \<^verbatim>\<open>activeTileId\<close>: \<^verbatim>\<open>null\<close> becomes the string "null".\<close>

definition toPropertyKey :: "string option \<Rightarrow> string" where
  "toPropertyKey x = (case x of None \<Rightarrow> ''null'' | Some s \<Rightarrow> s)"

definition filePicker_change_resume ::
  "variant \<Rightarrow> nat \<Rightarrow> host \<Rightarrow> tile list \<Rightarrow> int \<Rightarrow> string \<Rightarrow> page \<Rightarrow> stop + page" where
  "filePicker_change_resume v n h TILES now dataUrl st =
     (let st1 = st\<lparr>imagesById :=
                    obj_set (imagesById st) (toPropertyKey (activeTileId st)) dataUrl\<rparr>
      in case saveImages h st1 of
           Inl e \<Rightarrow> Inl e
         | Inr st2 \<Rightarrow>
             (case renderTrack v n h TILES now st2 of
                Inl e \<Rightarrow> Inl e
              | Inr st3 \<Rightarrow>
                  (case find (\<lambda>t. Some (tile_id t) = activeTileId st3) TILES of
                     None \<Rightarrow> Inr st3
                   | Some t \<Rightarrow> Inr (openTileModal v h now t st3))))"

text \<open>The reset button of \<^verbatim>\<open>src/app.js\<close>.\<close>

definition resetBtn_click :: "nat \<Rightarrow> host \<Rightarrow> tile list \<Rightarrow> int \<Rightarrow> page \<Rightarrow> stop + page" where
  "resetBtn_click n h TILES now st =
     (case saveImages h (st\<lparr>imagesById := []\<rparr>) of
        Inl e \<Rightarrow> Inl e
      | Inr st1 \<Rightarrow>
          (case renderTrack Upload_script n h TILES now st1 of
             Inl e \<Rightarrow> Inl e
           | Inr st' \<Rightarrow> Inr (closeModal st')))"

text \<open>
  The element a tile ends up with after a pass in which no countdown had run out: the one
  the loop body of \<^verbatim>\<open>renderTrack\<close> builds, with the text \<^verbatim>\<open>updateCountdowns\<close> writes into
  its countdown, if it has one.
\<close>

definition countdownText :: "host \<Rightarrow> int \<Rightarrow> tile \<Rightarrow> string" where
  "countdownText h now t =
     (case parseTime h (revealAt t) of
        None \<Rightarrow> ''Invalid time''
      | Some r \<Rightarrow> ''<small>Reveals in</small>'' @ countdownString (r - now))"

definition tileView :: "variant \<Rightarrow> host \<Rightarrow> images \<Rightarrow> int \<Rightarrow> tile \<Rightarrow> tile_el" where
  "tileView v h imgs now t =
     (renderTile v h imgs now t)
       \<lparr>countdown :=
          map_option (\<lambda>cd. cd\<lparr>cd_html := countdownText h now t\<rparr>)
            (countdown (renderTile v h imgs now t))\<rparr>"

text \<open>The track elements whose countdown carries a given id, that is the elements the
  selector of \<^verbatim>\<open>updateCountdowns\<close> can find.\<close>

definition matches :: "string \<Rightarrow> tile_el \<Rightarrow> bool" where
  "matches i e = (case countdown e of None \<Rightarrow> False | Some cd \<Rightarrow> cd_for cd = i)"

text \<open>The whole seconds a \<open>parts\<close> value stands for.\<close>

definition total_seconds :: "parts \<Rightarrow> int" where
  "total_seconds p = days p * 86400 + hours p * 3600 + mins p * 60 + secs p"

section \<open>A host and a configuration for concrete runs\<close>

text \<open>
  A host whose parsers are fixed at the arguments used below, where they agree with
  every ECMAScript host: the two UTC timestamps parse to their epoch milliseconds,
  \<^verbatim>\<open>not-a-date\<close> does not parse, and the JSON texts \<^verbatim>\<open>null\<close> and \<^verbatim>\<open>{}\<close> parse to
  \<^verbatim>\<open>null\<close> and the empty object. Its formatter prints the time value, its case mapping
  leaves a character as it is and an inherited member converts to its name; nothing below
  depends on these three. Its storage takes a text of up to five million bytes.
\<close>

definition demo_host :: host where
  "demo_host =
     \<lparr> Date_parse = (\<lambda>s.
         if s = ''2025-01-01T00:00:00Z'' then Some 1735689600000
         else if s = ''2025-01-02T00:00:00Z'' then Some 1735776000000
         else None),
       Intl_format = (\<lambda>t. Number_toString t),
       JSON_parse = (\<lambda>s.
         if s = ''null'' then Some JNull
         else if s = ''{}'' then Some (JObj [])
         else None),
       toUpperCase = (\<lambda>c. c),
       inherited_text = (\<lambda>k. k),
       setItem_accepts = (\<lambda>text. length text \<le> 5000000) \<rparr>"

definition mk_tile :: "string \<Rightarrow> string \<Rightarrow> tile" where
  "mk_tile i r = \<lparr> tile_id = i, title = ''T'', rarity = ''rare'', revealAt = r,
                   imageUrl = None, icon = None \<rparr>"

definition demo_tiles :: "tile list" where
  "demo_tiles =
     [ mk_tile ''tile-01'' ''2025-01-01T00:00:00Z'',
       mk_tile ''tile-02'' ''2025-01-01T00:00:00Z'',
       mk_tile ''tile-03'' ''2025-01-02T00:00:00Z'',
       mk_tile ''tile-04'' ''not-a-date'' ]"

text \<open>A configuration that breaks the rule that ids are unique: two tiles share an
  id, the first still locked and the second already revealed on 2025-01-01.\<close>

definition twin_tiles :: "tile list" where
  "twin_tiles =
     [ mk_tile ''tile-01'' ''2025-01-02T00:00:00Z'',
       mk_tile ''tile-01'' ''2025-01-01T00:00:00Z'' ]"

definition empty_page :: page where
  "empty_page =
     \<lparr> trackRow = [], trackHint = [], imagesById = [], localStorage = None,
       activeTileId = None, modalKicker = [], modalTitle = [], modalRarity = [],
       modalReveal = [], modalStatus = [], modalPreview = None,
       modalUploadBtn_disabled = False, modalUploadBtn_text = [],
       modalUploadBtn_display = [], modalBackdrop_open = False,
       modalBackdrop_ariaHidden = ''true'', filePicker_value = [],
       filePicker_clicks = 0 \<rparr>"


section \<open>Schedule evaluator\<close>

lemma demo_parse:
  "parseTime demo_host ''2025-01-01T00:00:00Z'' = Some 1735689600000"
  "parseTime demo_host ''2025-01-02T00:00:00Z'' = Some 1735776000000"
  "parseTime demo_host ''not-a-date'' = None"
  by (simp_all add: parseTime_def demo_host_def)

text \<open>
  C1. A tile is revealed at \<open>now\<close> exactly when its \<open>revealAt\<close> parses and \<open>now\<close> is
  not before the parsed instant. The boundary is closed: at the parsed instant itself the
  tile is revealed.
\<close>

theorem isRevealed_iff_parsed_and_reached:
  "(isRevealed h t now \<longleftrightarrow>
      parseTime h (revealAt t) \<noteq> None \<and> (\<exists>r. parseTime h (revealAt t) = Some r \<and> r \<le> now)) \<and>
   (parseTime h (revealAt t) = Some r0 \<longrightarrow> isRevealed h t r0)"
  by (auto simp: isRevealed_def split: option.splits)

theorem isRevealed_iff_parsed_and_reached_witness:
  "parseTime demo_host (revealAt (mk_tile ''tile-01'' ''2025-01-01T00:00:00Z'')) = Some 1735689600000 \<and>
   isRevealed demo_host (mk_tile ''tile-01'' ''2025-01-01T00:00:00Z'') 1735689600000"
  using isRevealed_iff_parsed_and_reached
    [of demo_host "mk_tile ''tile-01'' ''2025-01-01T00:00:00Z''" 1735689600000 1735689600000]
  by (simp add: mk_tile_def demo_parse)

text \<open>
  C2. Reveal is monotonic in time: a tile revealed at \<open>now1\<close> is revealed at every later
  \<open>now2\<close>.
\<close>

theorem isRevealed_mono:
  "now1 \<le> now2 \<Longrightarrow> isRevealed h t now1 \<Longrightarrow> isRevealed h t now2"
  by (auto simp: isRevealed_def split: option.splits)

theorem isRevealed_mono_witness:
  "(1735689600000::int) \<le> 1735689600001 \<and>
   isRevealed demo_host (mk_tile ''tile-01'' ''2025-01-01T00:00:00Z'') 1735689600000 \<and>
   isRevealed demo_host (mk_tile ''tile-01'' ''2025-01-01T00:00:00Z'') 1735689600001"
proof -
  have le: "(1735689600000::int) \<le> 1735689600001" by simp
  have r: "isRevealed demo_host (mk_tile ''tile-01'' ''2025-01-01T00:00:00Z'') 1735689600000"
    by (simp add: isRevealed_def mk_tile_def demo_parse)
  from isRevealed_mono [OF le r] le r show ?thesis by simp
qed

subsection \<open>Remaining time\<close>

lemma split_day: "(s::int) div 86400 * 86400 + s mod 86400 = s"
  by simp

lemma split_hour: "(s::int) mod 86400 div 3600 * 3600 + s mod 3600 = s mod 86400"
proof -
  have "s mod 3600 = s mod 86400 mod 3600"
    by (simp add: mod_mod_cancel)
  then show ?thesis by simp
qed

lemma split_min: "(s::int) mod 3600 div 60 * 60 + s mod 60 = s mod 3600"
proof -
  have "s mod 60 = s mod 3600 mod 60"
    by (simp add: mod_mod_cancel)
  then show ?thesis by simp
qed

lemma parts_sel:
  "days (msToParts ms) = max 0 (ms div 1000) div 86400"
  "hours (msToParts ms) = max 0 (ms div 1000) mod 86400 div 3600"
  "mins (msToParts ms) = max 0 (ms div 1000) mod 3600 div 60"
  "secs (msToParts ms) = max 0 (ms div 1000) mod 60"
  by (simp_all add: msToParts_def Let_def)

lemma total_seconds_msToParts: "total_seconds (msToParts ms) = max 0 (ms div 1000)"
  unfolding total_seconds_def parts_sel
  using split_day [of "max 0 (ms div 1000)"] split_hour [of "max 0 (ms div 1000)"]
    split_min [of "max 0 (ms div 1000)"]
  by linarith

text \<open>
  C3, as stated: the remaining whole seconds are never negative, and are 0 exactly when
  \<open>now \<ge> revealAt\<close>. The second half fails during the last second before the reveal:
  500 ms before it the remaining seconds are already 0.
\<close>

theorem remaining_zero_before_reveal:
  "\<not> (total_seconds (msToParts (1000 - 500)) = 0 \<longleftrightarrow> (500::int) \<ge> 1000)"
  by (simp add: total_seconds_msToParts)

text \<open>
  C3, amended: the remaining whole seconds are never negative, and are 0 exactly when less
  than one whole second is left, that is when \<open>revealAt - now < 1000\<close> ms (which includes
  every \<open>now \<ge> revealAt\<close>).
\<close>

theorem remaining_nonneg_zero_iff:
  "0 \<le> total_seconds (msToParts (r - now)) \<and>
   (total_seconds (msToParts (r - now)) = 0 \<longleftrightarrow> r - now < 1000)"
proof -
  have "(r - now) div 1000 \<le> 0 \<longleftrightarrow> r - now < 1000"
    by linarith
  then have "max 0 ((r - now) div 1000) = 0 \<longleftrightarrow> r - now < 1000"
    by linarith
  then show ?thesis
    unfolding total_seconds_msToParts by simp
qed

theorem remaining_nonneg_zero_iff_witness:
  "0 \<le> total_seconds (msToParts (1735689600000 - 1735689600000)) \<and>
   total_seconds (msToParts (1735689600000 - 1735689600000)) = 0"
  using remaining_nonneg_zero_iff [of 1735689600000 1735689600000] by simp


subsection \<open>Countdown text\<close>

lemma days_pos_iff: "0 \<le> (s::int) \<Longrightarrow> (s div 86400 > 0) = (s \<ge> 86400)"
  by linarith

lemma hours_pos_iff:
  "0 \<le> (s::int) \<Longrightarrow> s < 86400 \<Longrightarrow> (s mod 86400 div 3600 > 0) = (s \<ge> 3600)"
  by simp linarith

lemma countdownString_unfold:
  "countdownString ms =
     (if days (msToParts ms) > 0 then
        Number_toString (days (msToParts ms)) @ ''d '' @
        Number_toString (hours (msToParts ms)) @ ''h '' @
        Number_toString (mins (msToParts ms)) @ ''m''
      else if hours (msToParts ms) > 0 then
        Number_toString (hours (msToParts ms)) @ ''h '' @
        Number_toString (mins (msToParts ms)) @ ''m '' @
        Number_toString (secs (msToParts ms)) @ ''s''
      else
        Number_toString (mins (msToParts ms)) @ ''m '' @
        Number_toString (secs (msToParts ms)) @ ''s'')"
  unfolding countdownString_def Let_def by (rule refl)

lemma countdownString_seconds:
  fixes ms :: int
  defines "s \<equiv> max 0 (ms div 1000)"
  shows "countdownString ms =
    (if s \<ge> 86400 then
       Number_toString (s div 86400) @ ''d '' @ Number_toString (s mod 86400 div 3600) @ ''h '' @
       Number_toString (s mod 3600 div 60) @ ''m''
     else if s \<ge> 3600 then
       Number_toString (s div 3600) @ ''h '' @ Number_toString (s mod 3600 div 60) @ ''m '' @
       Number_toString (s mod 60) @ ''s''
     else Number_toString (s div 60) @ ''m '' @ Number_toString (s mod 60) @ ''s'')"
proof -
  have s0: "0 \<le> s" by (simp add: s_def)
  note unf = countdownString_unfold [of ms, unfolded parts_sel, folded s_def]
  show ?thesis
  proof (cases "s \<ge> 86400")
    case True
    then have "0 < s div 86400" using s0 by (simp add: days_pos_iff)
    with True show ?thesis unfolding unf by (simp only: if_True)
  next
    case day: False
    then have m: "s mod 86400 = s" using s0 by simp
    have d: "\<not> 0 < s div 86400" using day s0 by (simp add: days_pos_iff)
    show ?thesis
    proof (cases "s \<ge> 3600")
      case True
      then have "0 < s mod 86400 div 3600" using s0 day by (simp add: hours_pos_iff)
      with True day d show ?thesis unfolding unf by (simp only: if_True if_False m)
    next
      case False
      then have m': "s mod 3600 = s" using s0 by simp
      have "\<not> 0 < s mod 86400 div 3600" using False s0 day by (simp add: hours_pos_iff)
      with False day d show ?thesis unfolding unf by (simp only: if_True if_False m')
    qed
  qed
qed

lemma parts_bounds:
  "0 \<le> days (msToParts ms) \<and> 0 \<le> hours (msToParts ms) \<and> hours (msToParts ms) < 24 \<and>
   0 \<le> mins (msToParts ms) \<and> mins (msToParts ms) < 60 \<and>
   0 \<le> secs (msToParts ms) \<and> secs (msToParts ms) < 60"
proof -
  define s where "s = max 0 (ms div 1000)"
  have s0: "0 \<le> s" by (simp add: s_def)
  have 1: "0 \<le> s div 86400" using s0 by simp
  have 2: "0 \<le> s mod 86400 div 3600" by simp
  have 3: "s mod 86400 div 3600 < 24" by simp
  have 4: "0 \<le> s mod 3600 div 60" by simp
  have 5: "s mod 3600 div 60 < 60" by simp
  have 6: "0 \<le> s mod 60" "s mod 60 < 60" by simp_all
  show ?thesis
    unfolding parts_sel s_def [symmetric] using 1 2 3 4 5 6 by blast
qed

lemma countdownString_examples:
  "countdownString (90061 * 1000) = ''1d 1h 1m''"
  "countdownString (3661 * 1000) = ''1h 1m 1s''"
  "countdownString (61 * 1000) = ''1m 1s''"
  "countdownString 0 = ''0m 0s''"
  by code_simp+

lemma countdownString_more_examples:
  "countdownString (- 1500) = ''0m 0s''"
  "countdownString 172800999 = ''2d 0h 0m''"
  by code_simp+

text \<open>
  C4. With \<open>s\<close> the whole seconds left (the milliseconds divided by 1000, rounded down,
  and not below 0), the countdown text is days, hours and minutes when \<open>s\<close> is at least a
  day, hours, minutes and seconds when it is at least an hour, and minutes and seconds
  otherwise. Every component is a non-negative integer, also for a zero or negative
  input. 90061 s reads "1d 1h 1m", 3661 s "1h 1m 1s", 61 s "1m 1s" and 0 s "0m 0s".
\<close>

theorem countdownString_granularity:
  "countdownString ms =
    (if max 0 (ms div 1000) \<ge> 86400 then
       Number_toString (max 0 (ms div 1000) div 86400) @ ''d '' @
       Number_toString (max 0 (ms div 1000) mod 86400 div 3600) @ ''h '' @
       Number_toString (max 0 (ms div 1000) mod 3600 div 60) @ ''m''
     else if max 0 (ms div 1000) \<ge> 3600 then
       Number_toString (max 0 (ms div 1000) div 3600) @ ''h '' @
       Number_toString (max 0 (ms div 1000) mod 3600 div 60) @ ''m '' @
       Number_toString (max 0 (ms div 1000) mod 60) @ ''s''
     else
       Number_toString (max 0 (ms div 1000) div 60) @ ''m '' @
       Number_toString (max 0 (ms div 1000) mod 60) @ ''s'') \<and>
   0 \<le> days (msToParts ms) \<and>
   0 \<le> hours (msToParts ms) \<and> hours (msToParts ms) < 24 \<and>
   0 \<le> mins (msToParts ms) \<and> mins (msToParts ms) < 60 \<and>
   0 \<le> secs (msToParts ms) \<and> secs (msToParts ms) < 60 \<and>
   countdownString (90061 * 1000) = ''1d 1h 1m'' \<and>
   countdownString (3661 * 1000) = ''1h 1m 1s'' \<and>
   countdownString (61 * 1000) = ''1m 1s'' \<and>
   countdownString 0 = ''0m 0s''"
  using countdownString_seconds [of ms] parts_bounds [of ms] countdownString_examples
  by blast

theorem countdownString_granularity_witness:
  "countdownString (- 1500) = ''0m 0s'' \<and> countdownString 172800999 = ''2d 0h 0m'' \<and>
   0 \<le> secs (msToParts (- 1500))"
  using countdownString_granularity [of "- 1500"] countdownString_more_examples
  by blast

subsection \<open>Next locked tile\<close>

lemma findIndex_from_none:
  "(findIndex_from p xs k = - 1) = (\<forall>x \<in> set xs. \<not> p x)"
  by (induction xs arbitrary: k) auto

lemma findIndex_from_some:
  "findIndex_from p xs k \<noteq> - 1 \<Longrightarrow>
     \<exists>i < length xs. findIndex_from p xs k = int (k + i) \<and> p (xs ! i) \<and> (\<forall>j < i. \<not> p (xs ! j))"
proof (induction xs arbitrary: k)
  case Nil
  then show ?case by simp
next
  case (Cons x xs)
  show ?case
  proof (cases "p x")
    case True
    then show ?thesis by (intro exI [of _ 0]) simp
  next
    case False
    with Cons.prems have "findIndex_from p xs (Suc k) \<noteq> - 1" by simp
    from Cons.IH [OF this] obtain i where i: "i < length xs"
      "findIndex_from p xs (Suc k) = int (Suc k + i)" "p (xs ! i)" "\<forall>j < i. \<not> p (xs ! j)"
      by blast
    show ?thesis
    proof (intro exI [of _ "Suc i"] conjI allI impI)
      show "Suc i < length (x # xs)" using i(1) by simp
      show "findIndex_from p (x # xs) k = int (k + Suc i)" using False i(2) by simp
      show "p ((x # xs) ! Suc i)" using i(3) by simp
      show "\<not> p ((x # xs) ! j)" if "j < Suc i" for j
        using that False i(4) by (cases j) auto
    qed
  qed
qed

text \<open>
  C5. \<open>nextUnrevealedIndex\<close> is \<open>-1\<close> exactly when every tile of the list is revealed;
  otherwise it is the position, in the order of the list as given, of a tile that is not
  revealed and before which every tile is revealed.
\<close>

theorem nextUnrevealedIndex_first_locked:
  "(nextUnrevealedIndex h TILES now = - 1 \<longleftrightarrow> (\<forall>t \<in> set TILES. isRevealed h t now)) \<and>
   (nextUnrevealedIndex h TILES now \<noteq> - 1 \<longrightarrow>
      (\<exists>i < length TILES. nextUnrevealedIndex h TILES now = int i \<and>
          \<not> isRevealed h (TILES ! i) now \<and> (\<forall>j < i. isRevealed h (TILES ! j) now)))"
proof (intro conjI impI)
  show "nextUnrevealedIndex h TILES now = - 1 \<longleftrightarrow> (\<forall>t \<in> set TILES. isRevealed h t now)"
    unfolding nextUnrevealedIndex_def findIndex_def by (simp add: findIndex_from_none)
next
  assume "nextUnrevealedIndex h TILES now \<noteq> - 1"
  then have "findIndex_from (\<lambda>t. \<not> isRevealed h t now) TILES 0 \<noteq> - 1"
    by (simp add: nextUnrevealedIndex_def findIndex_def)
  from findIndex_from_some [OF this]
  show "\<exists>i < length TILES. nextUnrevealedIndex h TILES now = int i \<and>
          \<not> isRevealed h (TILES ! i) now \<and> (\<forall>j < i. isRevealed h (TILES ! j) now)"
    by (simp add: nextUnrevealedIndex_def findIndex_def)
qed

lemma demo_next:
  "nextUnrevealedIndex demo_host demo_tiles 1735689600000 = 2"
  "nextUnrevealedIndex demo_host (take 2 demo_tiles) 1735689600000 = - 1"
  by (simp_all add: nextUnrevealedIndex_def findIndex_def demo_tiles_def mk_tile_def
      isRevealed_def demo_parse)

theorem nextUnrevealedIndex_first_locked_witness:
  "nextUnrevealedIndex demo_host demo_tiles 1735689600000 = 2 \<and>
   \<not> isRevealed demo_host (demo_tiles ! 2) 1735689600000 \<and>
   isRevealed demo_host (demo_tiles ! 0) 1735689600000 \<and>
   isRevealed demo_host (demo_tiles ! 1) 1735689600000 \<and>
   nextUnrevealedIndex demo_host (take 2 demo_tiles) 1735689600000 = - 1"
proof -
  from nextUnrevealedIndex_first_locked [of demo_host demo_tiles 1735689600000]
  obtain i where i: "int i = 2" "\<not> isRevealed demo_host (demo_tiles ! i) 1735689600000"
    "\<forall>j < i. isRevealed demo_host (demo_tiles ! j) 1735689600000"
    by (auto simp: demo_next)
  from i(1) have i2: "i = 2" by simp
  from i(3) i2 have "isRevealed demo_host (demo_tiles ! 0) 1735689600000"
    "isRevealed demo_host (demo_tiles ! 1) 1735689600000" by simp_all
  with i(2) i2 show ?thesis by (simp add: demo_next)
qed


section \<open>Track renderer\<close>

lemma countdown_renderTile:
  "countdown (renderTile v h imgs now t) =
     (if isRevealed h t now then None
      else Some \<lparr> cd_className = (case v of Upload_script \<Rightarrow> ''countdown'' | Url_script \<Rightarrow> ''countdown big''),
                  cd_for = tile_id t,
                  cd_html = (case v of Upload_script \<Rightarrow> ''<small>Reveals in</small>''
                     | Url_script \<Rightarrow> ''<small>Reveals in</small>'' @
                      countdownString ((case parseTime h (revealAt t) of None \<Rightarrow> now | Some r \<Rightarrow> r) - now)) \<rparr>)"
  by (cases v) (simp_all add: renderTile_def isRevealed_def Let_def)


lemma querySelector_from_skip:
  "\<forall>e \<in> set es1. \<not> matches i e \<Longrightarrow>
     querySelector_from i (es1 @ es2) k = querySelector_from i es2 (k + length es1)"
  by (induction es1 arbitrary: k) (auto simp: matches_def split: option.splits)

lemma querySelector_from_none:
  "\<forall>e \<in> set es. \<not> matches i e \<Longrightarrow> querySelector_from i es k = None"
  by (induction es arbitrary: k) (auto simp: matches_def split: option.splits)

lemma querySelector_from_hit:
  "matches i e \<Longrightarrow> querySelector_from i (e # es) k = Some k"
  by (auto simp: matches_def split: option.splits)

lemma matches_renderTile:
  "matches i (renderTile v h imgs now t) = (i = tile_id t \<and> \<not> isRevealed h t now)"
  by (auto simp: matches_def countdown_renderTile)

lemma countdown_tileView:
  "countdown (tileView v h imgs now t) =
     map_option (\<lambda>cd. cd\<lparr>cd_html := countdownText h now t\<rparr>) (countdown (renderTile v h imgs now t))"
  by (simp add: tileView_def)

lemma matches_tileView:
  "matches i (tileView v h imgs now t) = (i = tile_id t \<and> \<not> isRevealed h t now)"
  by (auto simp: matches_def countdown_tileView countdown_renderTile)

lemma tileView_revealed:
  "isRevealed h t now \<Longrightarrow> tileView v h imgs now t = renderTile v h imgs now t"
  by (simp add: tileView_def countdown_renderTile)

lemma set_html_at:
  "set_html (length es1) html (es1 @ e # es2) =
     es1 @ e\<lparr>countdown := map_option (\<lambda>cd. cd\<lparr>cd_html := html\<rparr>) (countdown e)\<rparr> # es2"
  by (simp add: set_html_def)


lemma tileView_locked:
  "\<not> isRevealed h t now \<Longrightarrow>
   (renderTile v h imgs now t)
      \<lparr>countdown := map_option (\<lambda>cd. cd\<lparr>cd_html := countdownText h now t\<rparr>)
          (countdown (renderTile v h imgs now t))\<rparr> = tileView v h imgs now t"
  by (simp add: tileView_def)

lemma updateCountdowns_loop_settles:
  assumes "distinct (map tile_id (done @ rest))"
    and "trackRow st = map (tileView v h imgs now) done @ map (renderTile v h imgs now) rest"
    and "\<forall>t \<in> set rest. selector_safe (tile_id t)"
  shows "updateCountdowns_loop v n h TILES now rest st =
           Inr (st\<lparr>trackRow := map (tileView v h imgs now) (done @ rest)\<rparr>)"
  using assms
proof (induction rest arbitrary: "done" st)
  case Nil
  then show ?case by simp
next
  case (Cons t rest)
  let ?TV = "tileView v h imgs now" and ?RT = "renderTile v h imgs now"
  from Cons.prems(3) have safe: "selector_safe (tile_id t)"
    and safe': "\<forall>t \<in> set rest. selector_safe (tile_id t)" by simp_all
  from Cons.prems(1) have d': "distinct (map tile_id ((done @ [t]) @ rest))" by simp
  from Cons.prems(1) have nd: "\<forall>e \<in> set (map ?TV done). \<not> matches (tile_id t) e"
    by (auto simp: matches_tileView)
  from Cons.prems(1) have nr: "\<forall>e \<in> set (map ?RT rest). \<not> matches (tile_id t) e"
    by (auto simp: matches_renderTile)
  have row: "trackRow st = map ?TV done @ ?RT t # map ?RT rest"
    using Cons.prems(2) by simp
  show ?case
  proof (cases "isRevealed h t now")
    case True
    then have "\<forall>e \<in> set (?RT t # map ?RT rest). \<not> matches (tile_id t) e"
      using nr by (simp add: matches_renderTile)
    then have q: "querySelector (tile_id t) (trackRow st) = None"
      unfolding querySelector_def row
      by (simp only: querySelector_from_skip [OF nd] querySelector_from_none)
    have row': "trackRow st = map ?TV (done @ [t]) @ map ?RT rest"
      using row True by (simp add: tileView_revealed)
    from Cons.IH [OF d' row' safe'] q safe show ?thesis by simp
  next
    case False
    then have hit: "matches (tile_id t) (?RT t)" by (simp add: matches_renderTile)
    have q: "querySelector (tile_id t) (trackRow st) = Some (length done)"
      unfolding querySelector_def row
      by (simp only: querySelector_from_skip [OF nd] querySelector_from_hit [OF hit]) simp
    have upd: "set_html (length done) (countdownText h now t) (trackRow st) =
                 map ?TV (done @ [t]) @ map ?RT rest"
      using set_html_at [of "map ?TV done" "countdownText h now t" "?RT t" "map ?RT rest"]
      by (simp add: row tileView_locked [OF False])
    let ?st' = "st\<lparr>trackRow := set_html (length done) (countdownText h now t) (trackRow st)\<rparr>"
    have row': "trackRow ?st' = map ?TV (done @ [t]) @ map ?RT rest"
      using upd by simp
    have IH: "updateCountdowns_loop v n h TILES now rest ?st' =
                Inr (st\<lparr>trackRow := map ?TV (done @ t # rest)\<rparr>)"
      using Cons.IH [OF d' row' safe'] by simp
    show ?thesis
    proof (cases "parseTime h (revealAt t)")
      case None
      then have "countdownText h now t = ''Invalid time''" by (simp add: countdownText_def)
      with IH q None safe show ?thesis by simp
    next
      case (Some r)
      with False have pos: "\<not> r - now \<le> 0" by (simp add: isRevealed_def)
      from Some have "countdownText h now t = ''<small>Reveals in</small>'' @ countdownString (r - now)"
        by (simp add: countdownText_def)
      with IH q Some pos safe show ?thesis by (simp add: Let_def)
    qed
  qed
qed

lemma renderTrack_settles:
  assumes "distinct (map tile_id TILES)"
    and "\<forall>t \<in> set TILES. selector_safe (tile_id t)"
  shows "renderTrack v (Suc n) h TILES now st =
           Inr (st\<lparr>trackRow := map (tileView v h (imagesById st) now) TILES,
                    trackHint := hintText v h now\<rparr>)"
proof -
  let ?st1 = "st\<lparr>trackRow := map (renderTile v h (imagesById st) now) TILES,
                  trackHint := hintText v h now\<rparr>"
  have "trackRow ?st1 = map (tileView v h (imagesById st) now) [] @
          map (renderTile v h (imagesById st) now) TILES" by simp
  from updateCountdowns_loop_settles [of "[]" TILES ?st1 v h "imagesById st" now n TILES, OF _ this]
    assms
  show ?thesis by simp
qed



declare renderTrack.simps [simp del] updateCountdowns_loop.simps [simp del]


lemma demo_distinct: "distinct (map tile_id demo_tiles)"
  by (simp add: demo_tiles_def mk_tile_def)

lemma demo_safe: "\<forall>t \<in> set demo_tiles. selector_safe (tile_id t)"
  by (simp add: demo_tiles_def mk_tile_def selector_safe_def)



text \<open>
  C9. For a configuration whose tile ids are distinct and selector-safe, a render pass
  returns, and a second pass
  at the same clock reading, on the page the first one left, returns that same page: the
  track and the hint are rebuilt to the same content and nothing else changes. The track
  and the hint depend only on the configuration, the clock reading and the stored images,
  not on what the page showed before. This holds for both versions of the script.
\<close>

theorem renderTrack_idempotent:
  assumes "distinct (map tile_id TILES)"
    and "\<forall>t \<in> set TILES. selector_safe (tile_id t)"
  shows "\<exists>st1. renderTrack v (Suc n) h TILES now st = Inr st1 \<and>
               renderTrack v (Suc n) h TILES now st1 = Inr st1 \<and>
               (\<forall>st'. imagesById st' = imagesById st \<longrightarrow>
                  (\<exists>st1'. renderTrack v (Suc n) h TILES now st' = Inr st1' \<and>
                     trackRow st1' = trackRow st1 \<and> trackHint st1' = trackHint st1))"
  by (simp add: renderTrack_settles [OF assms])


theorem renderTrack_idempotent_witness:
  "distinct (map tile_id demo_tiles) \<and> list_all (\<lambda>t. selector_safe (tile_id t)) demo_tiles \<and>
   (\<exists>st1. renderTrack Upload_script (Suc 0) demo_host demo_tiles 1735689600000 empty_page = Inr st1 \<and>
          renderTrack Upload_script (Suc 0) demo_host demo_tiles 1735689600000 st1 = Inr st1)"
  using renderTrack_idempotent [OF demo_distinct demo_safe,
      of Upload_script 0 demo_host 1735689600000 empty_page]
    demo_distinct demo_safe
  by (simp add: list_all_iff) blast

subsection \<open>Ids that are not unique\<close>

text \<open>
  The hypothesis of distinct ids is needed. With \<open>twin_tiles\<close>, whose ids are
  selector-safe, the selector finds the
  countdown of the locked tile when the loop reaches the revealed one, the countdown has
  run out for that one, and the pass starts over, at every nesting depth: the pass does
  not return.
\<close>

lemma twin_facts:
  "\<not> isRevealed demo_host (mk_tile ''tile-01'' ''2025-01-02T00:00:00Z'') 1735689600000"
  "isRevealed demo_host (mk_tile ''tile-01'' ''2025-01-01T00:00:00Z'') 1735689600000"
  "tile_id (mk_tile i r) = i" "revealAt (mk_tile i r) = r"
  by (simp_all add: isRevealed_def mk_tile_def demo_parse)

lemma querySelector_hit0: "matches i e \<Longrightarrow> querySelector i (e # es) = Some 0"
  by (simp add: querySelector_def querySelector_from_hit del: querySelector_from.simps)

lemma querySelector_set_html0:
  "matches i e \<Longrightarrow> querySelector i (set_html 0 html (e # es)) = Some 0"
  by (auto simp: set_html_def matches_def querySelector_def split: option.splits)

lemma twin_safe: "selector_safe ''tile-01''"
  by (simp add: selector_safe_def)

lemma renderTrack_twin_ids:
  "renderTrack v n demo_host twin_tiles 1735689600000 st = Inl Nesting_exceeded"
proof (induction n arbitrary: st)
  case 0
  show ?case by (simp add: renderTrack.simps)
next
  case (Suc n)
  let ?A = "mk_tile ''tile-01'' ''2025-01-02T00:00:00Z''"
  let ?now = "1735689600000 :: int"
  have mA: "matches ''tile-01'' (renderTile v demo_host (imagesById st) ?now ?A)"
    by (simp add: matches_renderTile twin_facts)
  show ?case
    unfolding renderTrack.simps twin_tiles_def
    apply (subst updateCountdowns_loop.simps)
    apply (simp add: twin_facts twin_safe querySelector_hit0 [OF mA] demo_parse Let_def)
    apply (subst updateCountdowns_loop.simps)
    apply (simp add: twin_facts twin_safe querySelector_set_html0 [OF mA] demo_parse Let_def)
    apply (simp add: Suc.IH [unfolded twin_tiles_def])
    done
qed

subsection \<open>Tiles with an unparseable reveal time\<close>

lemma head_renderTile_invalid:
  "parseTime h (revealAt t) = None \<Longrightarrow>
     \<exists>hd. head (renderTile Upload_script h imgs now t) = Some hd \<and>
          time_html hd = ''Reveal <span>Invalid time</span>'' \<and> status_text hd = ''LOCKED''"
  by (simp add: renderTile_def Let_def)

lemma head_tileView: "head (tileView v h imgs now t) = head (renderTile v h imgs now t)"
  by (simp add: tileView_def)

lemma not_revealed_invalid: "parseTime h (revealAt t) = None \<Longrightarrow> \<not> isRevealed h t now"
  by (simp add: isRevealed_def)

lemma countdown_tileView_invalid:
  "parseTime h (revealAt t) = None \<Longrightarrow>
     \<exists>cd. countdown (tileView v h imgs now t) = Some cd \<and> cd_html cd = ''Invalid time''"
  by (simp add: countdown_tileView countdown_renderTile not_revealed_invalid countdownText_def)

lemma distinct_ids_update:
  "i < length TILES \<Longrightarrow> tile_id t' = tile_id (TILES ! i) \<Longrightarrow>
     map tile_id (TILES[i := t']) = map tile_id TILES"
  by (simp add: map_update list_update_same_conv)

lemma modalReveal_invalid:
  "parseTime h (revealAt t) = None \<Longrightarrow>
     modalReveal (openTileModal v h now t st) = ''Invalid time'' \<and>
     modalStatus (openTileModal v h now t st) = ''Locked''"
  by (cases v) (simp_all add: openTileModal_def Let_def)

text \<open>
  C6. Let the \<open>revealAt\<close> of the tile at position \<open>i\<close> be a string the host's date
  parser rejects, in a configuration whose ids are distinct and selector-safe. Then \<open>parseTime\<close> yields
  \<open>None\<close>; the tile is not revealed at any instant; a render pass returns, with one
  element per tile; the countdown of the tile's element reads "Invalid time" and, in
  \<^verbatim>\<open>src/app.js\<close>, its reveal line reads "Invalid time" and its status is LOCKED; and the
  elements of all other tiles are the ones they get when any other descriptor with the
  same id stands at position \<open>i\<close>.
\<close>

theorem invalid_time_tile:
  assumes bad: "Date_parse h (revealAt (TILES ! i)) = None"
    and i: "i < length TILES"
    and ids: "distinct (map tile_id TILES)"
    and safe: "\<forall>t \<in> set TILES. selector_safe (tile_id t)"
  shows "parseTime h (revealAt (TILES ! i)) = None \<and>
    (\<forall>now'. \<not> isRevealed h (TILES ! i) now') \<and>
    (\<exists>st'. renderTrack v (Suc n) h TILES now st = Inr st' \<and>
       length (trackRow st') = length TILES \<and>
       (\<exists>cd. countdown (trackRow st' ! i) = Some cd \<and> cd_html cd = ''Invalid time'') \<and>
       (v = Upload_script \<longrightarrow>
          (\<exists>hd. head (trackRow st' ! i) = Some hd \<and>
             time_html hd = ''Reveal <span>Invalid time</span>'' \<and> status_text hd = ''LOCKED'')) \<and>
       (\<forall>t'. tile_id t' = tile_id (TILES ! i) \<longrightarrow>
          (\<exists>st''. renderTrack v (Suc n) h (TILES[i := t']) now st = Inr st'' \<and>
             length (trackRow st'') = length TILES \<and>
             (\<forall>j < length TILES. j \<noteq> i \<longrightarrow> trackRow st'' ! j = trackRow st' ! j))))"
proof -
  have p: "parseTime h (revealAt (TILES ! i)) = None"
    using bad by (simp add: parseTime_def)
  let ?st' = "st\<lparr>trackRow := map (tileView v h (imagesById st) now) TILES,
                  trackHint := hintText v h now\<rparr>"
  have run: "renderTrack v (Suc n) h TILES now st = Inr ?st'"
    by (rule renderTrack_settles [OF ids safe])
  have at: "trackRow ?st' ! i = tileView v h (imagesById st) now (TILES ! i)"
    using i by simp
  have cd: "\<exists>cd. countdown (trackRow ?st' ! i) = Some cd \<and> cd_html cd = ''Invalid time''"
    unfolding at by (rule countdown_tileView_invalid [OF p])
  have hd: "v = Upload_script \<longrightarrow>
          (\<exists>hd. head (trackRow ?st' ! i) = Some hd \<and>
             time_html hd = ''Reveal <span>Invalid time</span>'' \<and> status_text hd = ''LOCKED'')"
    unfolding at head_tileView using head_renderTile_invalid [OF p] by blast
  have others: "\<exists>st''. renderTrack v (Suc n) h (TILES[i := t']) now st = Inr st'' \<and>
             length (trackRow st'') = length TILES \<and>
             (\<forall>j < length TILES. j \<noteq> i \<longrightarrow> trackRow st'' ! j = trackRow ?st' ! j)"
    if same: "tile_id t' = tile_id (TILES ! i)" for t'
  proof -
    have d: "distinct (map tile_id (TILES[i := t']))"
      using ids distinct_ids_update [OF i same] by simp
    have "set (map tile_id (TILES[i := t'])) = set (map tile_id TILES)"
      using distinct_ids_update [OF i same] by simp
    then have s: "\<forall>t \<in> set (TILES[i := t']). selector_safe (tile_id t)"
      using safe by (metis (no_types, lifting) image_iff list.set_map)
    from renderTrack_settles [OF d s]
    have "renderTrack v (Suc n) h (TILES[i := t']) now st =
            Inr (st\<lparr>trackRow := map (tileView v h (imagesById st) now) (TILES[i := t']),
                     trackHint := hintText v h now\<rparr>)" .
    then show ?thesis by simp
  qed
  from p run cd hd others show ?thesis
    by (simp add: not_revealed_invalid)
qed


theorem invalid_time_tile_witness:
  "Date_parse demo_host (revealAt (demo_tiles ! 3)) = None \<and> 3 < length demo_tiles \<and>
   distinct (map tile_id demo_tiles) \<and> list_all (\<lambda>t. selector_safe (tile_id t)) demo_tiles \<and>
   \<not> isRevealed demo_host (demo_tiles ! 3) 99999999999999 \<and>
   (\<exists>st'. renderTrack Upload_script (Suc 0) demo_host demo_tiles 1735689600000 empty_page = Inr st' \<and>
      (\<exists>cd. countdown (trackRow st' ! 3) = Some cd \<and> cd_html cd = ''Invalid time''))"
proof -
  have bad: "Date_parse demo_host (revealAt (demo_tiles ! 3)) = None"
    by (simp add: demo_tiles_def mk_tile_def demo_host_def)
  have i: "3 < length demo_tiles" by (simp add: demo_tiles_def)
  have s: "list_all (\<lambda>t. selector_safe (tile_id t)) demo_tiles"
    using demo_safe by (simp add: list_all_iff)
  from invalid_time_tile [OF bad i demo_distinct demo_safe,
      of Upload_script 0 1735689600000 empty_page]
    bad i demo_distinct s
  show ?thesis by blast
qed


section \<open>Upload\<close>

lemma openTileModal_keeps:
  "imagesById (openTileModal v h now t st) = imagesById st"
  "localStorage (openTileModal v h now t st) = localStorage st"
  "trackRow (openTileModal v h now t st) = trackRow st"
  "filePicker_clicks (openTileModal v h now t st) = filePicker_clicks st"
  "activeTileId (openTileModal v h now t st) = Some (tile_id t)"
  by (cases v; simp add: openTileModal_def Let_def)+

lemma openTileModal_locked_button:
  "\<not> isRevealed h t now \<Longrightarrow> modalUploadBtn_disabled (openTileModal Upload_script h now t st)"
  by (simp add: openTileModal_def Let_def isRevealed_def split: option.splits)

lemma demo_locked:
  "\<not> isRevealed demo_host (mk_tile ''tile-03'' ''2025-01-02T00:00:00Z'') 1735689600000"
  by (simp add: isRevealed_def mk_tile_def demo_parse)

lemma demo_find:
  "find (\<lambda>t. Some (tile_id t) = Some ''tile-03'') demo_tiles =
     Some (mk_tile ''tile-03'' ''2025-01-02T00:00:00Z'')"
  by (simp add: demo_tiles_def mk_tile_def)

lemma find_holds: "find P xs = Some x \<Longrightarrow> P x"
  by (auto simp: find_Some_iff)



lemma obj_set_plain:
  "k \<noteq> ''__proto__'' \<Longrightarrow> obj_set obj k v = AList.update k v obj"
  by (simp add: obj_set_def)

text \<open>The click handler of the upload button leaves the page as it is when the active
  tile is locked.\<close>

lemma modalUploadBtn_click_locked:
  "find (\<lambda>t. Some (tile_id t) = activeTileId st) TILES = Some t \<Longrightarrow>
   \<not> isRevealed h t now \<Longrightarrow>
   modalUploadBtn_click h TILES now st = st"
  by (simp add: modalUploadBtn_click_def)

lemma resume_general:
  assumes "distinct (map tile_id TILES)"
    and "\<forall>t \<in> set TILES. selector_safe (tile_id t)"
    and "setItem_accepts h
           (JSON_stringify (obj_set (imagesById st2) (toPropertyKey (activeTileId st2)) dataUrl))"
  shows "\<exists>st'. filePicker_change_resume v (Suc n) h TILES now dataUrl st2 = Inr st' \<and>
           imagesById st' = obj_set (imagesById st2) (toPropertyKey (activeTileId st2)) dataUrl \<and>
           localStorage st' = Some (JSON_stringify (imagesById st'))"
  unfolding filePicker_change_resume_def Let_def
  using assms(3)
  by (simp add: saveImages_def renderTrack_settles [OF assms(1) assms(2)] openTileModal_keeps
      split: option.split)


lemma resume_refused:
  "\<not> setItem_accepts h
       (JSON_stringify (obj_set (imagesById st2) (toPropertyKey (activeTileId st2)) dataUrl)) \<Longrightarrow>
   filePicker_change_resume v n h TILES now dataUrl st2 = Inl Storage_refused"
  by (simp add: filePicker_change_resume_def saveImages_def)

text \<open>
  C8. The change handler of the file picker, which receives the chosen image, does not
  look at the reveal state. Let the active tile be locked, in a configuration whose ids
  are distinct and selector-safe, the id being neither empty nor \<^verbatim>\<open>__proto__\<close>, and let
  the storage take the new text. The click handler of the upload button leaves the page
  as it is. The change handler, given an image file, goes on to read it, and when the
  read completes the image is stored under the locked tile's id and the storage is
  rewritten.
\<close>

theorem upload_stored_for_locked_tile:
  assumes "distinct (map tile_id TILES)"
    and "\<forall>t \<in> set TILES. selector_safe (tile_id t)"
    and "find (\<lambda>t. Some (tile_id t) = activeTileId st) TILES = Some t"
    and "\<not> isRevealed h t now"
    and "tile_id t \<noteq> []" and "tile_id t \<noteq> ''__proto__''"
    and "startsWith (file_type f) ''image/''"
    and "setItem_accepts h (JSON_stringify (AList.update (tile_id t) dataUrl (imagesById st)))"
  shows "modalUploadBtn_click h TILES now st = st \<and>
    filePicker_change_awaits (Some f) st \<and>
    (\<exists>st'. filePicker_change_resume v (Suc n) h TILES now dataUrl st = Inr st' \<and>
       map_of (imagesById st') (tile_id t) = Some dataUrl \<and>
       localStorage st' = Some (JSON_stringify (imagesById st')))"
proof -
  from find_holds [OF assms(3)] have act: "activeTileId st = Some (tile_id t)" by simp
  have click: "modalUploadBtn_click h TILES now st = st"
    by (rule modalUploadBtn_click_locked [OF assms(3) assms(4)])
  have aw: "filePicker_change_awaits (Some f) st"
    using act assms(5) assms(7) by (simp add: filePicker_change_awaits_def truthy_def)
  have key: "obj_set (imagesById st) (toPropertyKey (activeTileId st)) dataUrl =
      AList.update (tile_id t) dataUrl (imagesById st)"
    unfolding act by (simp add: toPropertyKey_def obj_set_plain [OF assms(6)])
  have "setItem_accepts h
      (JSON_stringify (obj_set (imagesById st) (toPropertyKey (activeTileId st)) dataUrl))"
    unfolding key by (rule assms(8))
  from resume_general [OF assms(1) assms(2) this, of v n now]
  obtain st' where st':
    "filePicker_change_resume v (Suc n) h TILES now dataUrl st = Inr st'"
    "imagesById st' = obj_set (imagesById st) (toPropertyKey (activeTileId st)) dataUrl"
    "localStorage st' = Some (JSON_stringify (imagesById st'))"
    by blast
  have "imagesById st' = AList.update (tile_id t) dataUrl (imagesById st)"
    unfolding st'(2) by (rule key)
  then have "map_of (imagesById st') (tile_id t) = Some dataUrl"
    by (simp add: AList.update_conv')
  with click aw st'(1) st'(3) show ?thesis by blast
qed

text \<open>
  A run that reaches this through the page alone, with \<open>tile-01\<close> revealed and
  \<open>tile-03\<close> locked: the modal is opened on \<open>tile-01\<close> and an image is picked, so the
  change handler starts reading; while it reads, the modal is closed and opened on
  \<open>tile-03\<close>; the read completes.
\<close>

lemma demo_switch_active:
  "activeTileId
     (openTileModal Upload_script demo_host 1735689600000
        (mk_tile ''tile-03'' ''2025-01-02T00:00:00Z'')
        (closeModal (openTileModal Upload_script demo_host 1735689600000
           (mk_tile ''tile-01'' ''2025-01-01T00:00:00Z'') empty_page))) = Some ''tile-03''"
  "imagesById
     (openTileModal Upload_script demo_host 1735689600000
        (mk_tile ''tile-03'' ''2025-01-02T00:00:00Z'')
        (closeModal (openTileModal Upload_script demo_host 1735689600000
           (mk_tile ''tile-01'' ''2025-01-01T00:00:00Z'') empty_page))) = []"
  by (simp_all add: openTileModal_keeps mk_tile_def closeModal_def empty_page_def)

lemma demo_stringify_tile:
  "JSON_stringify [(''tile-03'', ''data:image/png;base64,AAAA'')] =
     ''{'' @ CHR 0x22 # ''tile-03'' @ CHR 0x22 # '':'' @
     CHR 0x22 # ''data:image/png;base64,AAAA'' @ CHR 0x22 # ''}''"
  by (simp add: JSON_stringify_def ownPropertyOrder_def is_array_index_def is_digit_def
      quote_string_def quote_char_def)

lemma demo_change_starts:
  "filePicker_change_awaits (Some \<lparr>file_type = ''image/png''\<rparr>)
     (openTileModal Upload_script demo_host 1735689600000
        (mk_tile ''tile-01'' ''2025-01-01T00:00:00Z'') empty_page)"
  by (simp add: filePicker_change_awaits_def truthy_def startsWith_def openTileModal_keeps
      mk_tile_def)

theorem upload_stored_for_locked_tile_witness:
  "filePicker_change_awaits (Some \<lparr>file_type = ''image/png''\<rparr>)
     (openTileModal Upload_script demo_host 1735689600000
        (mk_tile ''tile-01'' ''2025-01-01T00:00:00Z'') empty_page) \<and>
   \<not> isRevealed demo_host (mk_tile ''tile-03'' ''2025-01-02T00:00:00Z'') 1735689600000 \<and>
   (\<exists>st'. filePicker_change_resume Upload_script (Suc 0) demo_host demo_tiles 1735689600000
            ''data:image/png;base64,AAAA''
            (openTileModal Upload_script demo_host 1735689600000
               (mk_tile ''tile-03'' ''2025-01-02T00:00:00Z'')
               (closeModal (openTileModal Upload_script demo_host 1735689600000
                  (mk_tile ''tile-01'' ''2025-01-01T00:00:00Z'') empty_page))) = Inr st' \<and>
      map_of (imagesById st') ''tile-03'' = Some ''data:image/png;base64,AAAA'')"
proof -
  let ?B = "mk_tile ''tile-03'' ''2025-01-02T00:00:00Z''"
  let ?st = "openTileModal Upload_script demo_host 1735689600000 ?B
               (closeModal (openTileModal Upload_script demo_host 1735689600000
                  (mk_tile ''tile-01'' ''2025-01-01T00:00:00Z'') empty_page))"
  have f: "find (\<lambda>t. Some (tile_id t) = activeTileId ?st) demo_tiles = Some ?B"
    unfolding demo_switch_active by (rule demo_find)
  have id: "tile_id ?B = ''tile-03''" by (simp add: mk_tile_def)
  have ne: "tile_id ?B \<noteq> []" "tile_id ?B \<noteq> ''__proto__''" by (simp_all add: id)
  have img: "startsWith (file_type \<lparr>file_type = ''image/png''\<rparr>) ''image/''"
    by (simp add: startsWith_def)
  have room: "setItem_accepts demo_host
      (JSON_stringify (AList.update (tile_id ?B) ''data:image/png;base64,AAAA'' (imagesById ?st)))"
    unfolding id demo_switch_active
    by (simp add: demo_stringify_tile demo_host_def)
  from upload_stored_for_locked_tile [OF demo_distinct demo_safe f demo_locked ne img room,
      of Upload_script 0]
  have "\<exists>st'. filePicker_change_resume Upload_script (Suc 0) demo_host demo_tiles 1735689600000
            ''data:image/png;base64,AAAA'' ?st = Inr st' \<and>
      map_of (imagesById st') ''tile-03'' = Some ''data:image/png;base64,AAAA''"
    unfolding id by blast
  with demo_change_starts demo_locked show ?thesis by blast
qed

subsection \<open>Completion of the file read\<close>





text \<open>Keys that are array indices come first in the stored text, in numeric order.\<close>

lemma own_order_index:
  "ownPropertyOrder [(''b'', ''x''), (''10'', ''y''), (''2'', ''z'')] =
     [(''2'', ''z''), (''10'', ''y''), (''b'', ''x'')]"
  by (simp add: ownPropertyOrder_def is_array_index_def is_digit_def index_value_def)

lemma stringify_index_keys_first:
  "JSON_stringify [(''b'', ''x''), (''10'', ''y''), (''2'', ''z'')] =
     ''{'' @ CHR 0x22 # ''2'' @ CHR 0x22 # '':'' @ CHR 0x22 # ''z'' @ CHR 0x22 # '','' @
     CHR 0x22 # ''10'' @ CHR 0x22 # '':'' @ CHR 0x22 # ''y'' @ CHR 0x22 # '','' @
     CHR 0x22 # ''b'' @ CHR 0x22 # '':'' @ CHR 0x22 # ''x'' @ CHR 0x22 # ''}''"
  unfolding JSON_stringify_def own_order_index
  by (simp add: quote_string_def quote_char_def)


section \<open>Persistence\<close>

lemma loadImages_fallbacks:
  "loadImages h Threw = JObj []"
  "loadImages h (Returned None) = JObj []"
  "loadImages h (Returned (Some [])) = JObj []"
  "JSON_parse h text = None \<Longrightarrow> loadImages h (Returned (Some text)) = JObj []"
  by (simp_all add: loadImages_def)

lemma loadImages_parsed:
  "text \<noteq> [] \<Longrightarrow> JSON_parse h text = Some v \<Longrightarrow> loadImages h (Returned (Some text)) = v"
  by (simp add: loadImages_def)

lemma loadImages_after_saveImages:
  "saveImages h st = Inr st' \<Longrightarrow>
   JSON_parse h (JSON_stringify (imagesById st)) = Some v \<Longrightarrow>
     loadImages h (Returned (localStorage st')) = v"
  by (auto simp: loadImages_def saveImages_def JSON_stringify_def split: if_splits)

text \<open>
  C7. \<open>loadImages\<close> falls back to the empty object when the storage cannot be read,
  holds nothing or an empty text, or holds a text \<^verbatim>\<open>JSON.parse\<close> rejects, and it returns
  what \<^verbatim>\<open>saveImages\<close> stored. A stored text that is valid JSON without being an object is
  not covered: for the text \<^verbatim>\<open>null\<close> the result is \<^verbatim>\<open>null\<close>, which is not a mapping.
\<close>

theorem loadImages_null_text:
  "JSON_parse h ''null'' = Some JNull \<Longrightarrow>
     loadImages h (Returned (Some ''null'')) = JNull \<and>
     loadImages h (Returned (Some ''null'')) \<noteq> JObj []"
  by (simp add: loadImages_def)

theorem loadImages_null_text_witness:
  "JSON_parse demo_host ''null'' = Some JNull \<and>
   loadImages demo_host (Returned (Some ''null'')) = JNull"
proof -
  have p: "JSON_parse demo_host ''null'' = Some JNull"
    by (simp add: demo_host_def)
  from loadImages_null_text [OF p] p show ?thesis by blast
qed

end
